theory Spec2Isabelle
  imports Main "HOL-Library.Sublist"
begin

section \<open>The version helper of the Lumol documentation configuration\<close>

text \<open>
  The configuration module \<^verbatim>\<open>doc/src/conf.py\<close> holds one function with behaviour:
  \<^verbatim>\<open>
  def version():
      parsed = toml.loads(open(os.path.join("..", "..", "Cargo.toml")).read())
      release = parsed["package"]["version"]
      version = ".".join(release.split(".")[:2])
      return version, release
  \<close>
  The string operations it uses are those of Python's \<^verbatim>\<open>str\<close>; they are embedded first.
\<close>

subsection \<open>Python string primitives\<close>

text \<open>
  \<^verbatim>\<open>s.split(sep)\<close> for a one-character separator: the pieces between the occurrences of
  the separator, empty pieces kept; the result is never empty (\<^verbatim>\<open>"".split(".") == [""]\<close>).
\<close>

fun str_split :: "char \<Rightarrow> string \<Rightarrow> string list" where
  "str_split sep [] = [[]]"
| "str_split sep (c # cs) =
     (if c = sep then [] # str_split sep cs
      else (case str_split sep cs of
              [] \<Rightarrow> [[c]]
            | p # ps \<Rightarrow> (c # p) # ps))"

text \<open>\<^verbatim>\<open>sep.join(xs)\<close>: the pieces with the separator between neighbours.\<close>

fun str_join :: "string \<Rightarrow> string list \<Rightarrow> string" where
  "str_join sep [] = []"
| "str_join sep [x] = x"
| "str_join sep (x # y # ys) = x @ sep @ str_join sep (y # ys)"

text \<open>
  Line 34 of the source, \<^verbatim>\<open>version = ".".join(release.split(".")[:2])\<close>; the slice
  \<^verbatim>\<open>[:2]\<close> keeps the first two pieces, or all of them when there are fewer.
\<close>

definition version_of :: "string \<Rightarrow> string" where
  "version_of release = str_join ''.'' (take 2 (str_split (CHR ''.'') release))"

subsection \<open>Exceptions and TOML values\<close>

text \<open>
  Every exception the function can let escape is a value. \<open>FileNotFoundError\<close>,
  \<open>IsADirectoryError\<close> and \<open>PermissionError\<close> carry the file name as it was given to
  \<^verbatim>\<open>open\<close>, \<open>TomlDecodeError\<close> the parser's message, \<open>KeyError\<close> the missing key.
\<close>

datatype exn =
    FileNotFoundError string
  | IsADirectoryError string
  | PermissionError string
  | UnicodeDecodeError
  | TomlDecodeError string
  | KeyError string
  | TypeError
  | AttributeError

text \<open>
  The values \<^verbatim>\<open>toml.loads\<close> produces: strings, integers, floats, booleans, date-times,
  arrays and tables. Floats and date-times are kept as their lexemes: the function
  never looks inside them. A table is an association list read with \<open>map_of\<close>.
\<close>

datatype toml_value =
    TString string
  | TInteger int
  | TFloat string
  | TBoolean bool
  | TDatetime string
  | TArray "toml_value list"
  | TTable "(string \<times> toml_value) list"

type_synonym toml_dict = "(string \<times> toml_value) list"

text \<open>
  \<^verbatim>\<open>x[key]\<close> with a string key: a table answers with the value or raises
  \<^verbatim>\<open>KeyError\<close>; every other TOML value raises \<^verbatim>\<open>TypeError\<close> (a string or a list wants
  integer indices, the scalar types are not subscriptable).
\<close>

fun getitem :: "toml_value \<Rightarrow> string \<Rightarrow> exn + toml_value" where
  "getitem (TTable d) key =
     (case map_of d key of None \<Rightarrow> Inl (KeyError key) | Some v \<Rightarrow> Inr v)"
| "getitem _ key = Inl TypeError"

text \<open>
  \<^verbatim>\<open>release.split\<close>: only a \<^verbatim>\<open>str\<close> has the method; on any other TOML value the
  attribute lookup raises \<^verbatim>\<open>AttributeError\<close>.
\<close>

fun str_of :: "toml_value \<Rightarrow> exn + string" where
  "str_of (TString s) = Inr s"
| "str_of _ = Inl AttributeError"

subsection \<open>Paths and the file system\<close>

text \<open>
  \<^verbatim>\<open>os.path.join\<close> on a POSIX system: a part that starts with a slash replaces what
  was joined so far, otherwise it is appended after exactly one slash.
\<close>

definition join_step :: "string \<Rightarrow> string \<Rightarrow> string" where
  "join_step path b =
     (if b \<noteq> [] \<and> hd b = CHR ''/'' then b
      else if path = [] \<or> last path = CHR ''/'' then path @ b
      else path @ ''/'' @ b)"

definition os_path_join :: "string \<Rightarrow> string list \<Rightarrow> string" where
  "os_path_join a ps = foldl join_step a ps"

text \<open>Line 32: \<^verbatim>\<open>os.path.join("..", "..", "Cargo.toml")\<close>.\<close>

definition manifest_name :: string where
  "manifest_name = os_path_join ''..'' [''..'', ''Cargo.toml'']"

text \<open>
  A location in the file system is the list of directory names from the root down
  to it; the root is \<open>[]\<close>. A file name is resolved component by component: an empty
  component and \<^verbatim>\<open>.\<close> stay, \<^verbatim>\<open>..\<close> moves to the parent (the root is its own parent), a
  name moves down. A relative name starts at the working directory of the process,
  an absolute one at the root. Symbolic links are not modelled. A file holds bytes;
  \<open>Unreadable\<close> is a file the process is not permitted to read (the permission to
  search the directories on the way is taken for granted).
\<close>

type_synonym path = "string list"

fun walk :: "path \<Rightarrow> string list \<Rightarrow> path" where
  "walk d [] = d"
| "walk d (c # cs) =
     (if c = [] \<or> c = ''.'' then walk d cs
      else if c = ''..'' then walk (butlast d) cs
      else walk (d @ [c]) cs)"

definition resolve :: "path \<Rightarrow> string \<Rightarrow> path" where
  "resolve wd name =
     (if name \<noteq> [] \<and> hd name = CHR ''/'' then walk [] (str_split (CHR ''/'') name)
      else walk wd (str_split (CHR ''/'') name))"

datatype node = File string | Dir | Unreadable

datatype io_event = Read_open path

text \<open>
  The part of the process environment the function can touch: the files, the working
  directory, and a log of the file-system requests issued so far.
\<close>

record world =
  files :: "(path \<times> node) list"
  cwd :: path
  log :: "io_event list"

datatype file_obj = File_obj path string

text \<open>
  \<^verbatim>\<open>open(name)\<close> in its default mode, reading text: the request is logged with the
  location the name resolves to; a missing file raises \<^verbatim>\<open>FileNotFoundError\<close>, a
  directory \<^verbatim>\<open>IsADirectoryError\<close>, a file that may not be read \<^verbatim>\<open>PermissionError\<close>.
  Nothing is created, truncated or written.
\<close>

definition builtin_open :: "string \<Rightarrow> world \<Rightarrow> (exn + file_obj) \<times> world" where
  "builtin_open name w =
     (let p = resolve (cwd w) name;
          w' = w\<lparr>log := log w @ [Read_open p]\<rparr>
      in case map_of (files w) p of
           None \<Rightarrow> (Inl (FileNotFoundError name), w')
         | Some Dir \<Rightarrow> (Inl (IsADirectoryError name), w')
         | Some Unreadable \<Rightarrow> (Inl (PermissionError name), w')
         | Some (File content) \<Rightarrow> (Inr (File_obj p content), w'))"

text \<open>
  A file opened in text mode translates line ends when it is read: a carriage return
  followed by a line feed, and a carriage return alone, each become one line feed.
\<close>

fun translate_newlines :: "string \<Rightarrow> string" where
  "translate_newlines [] = []"
| "translate_newlines [c] = (if c = CHR 0x0D then [CHR 0x0A] else [c])"
| "translate_newlines (c # d # ds) =
     (if c = CHR 0x0D then
        (if d = CHR 0x0A then CHR 0x0A # translate_newlines ds
         else CHR 0x0A # translate_newlines (d # ds))
      else c # translate_newlines (d # ds))"

text \<open>
  \<^verbatim>\<open>f.read()\<close> on a file opened in text mode: the bytes of the file are decoded with
  the encoding of the locale, then the line ends are translated. The source names no
  encoding, so the codec is a parameter: it maps the bytes to the text, or to
  \<open>None\<close> where the bytes are not valid in the encoding, and then the read raises
  \<^verbatim>\<open>UnicodeDecodeError\<close>. A text is a \<open>string\<close> here as everywhere in the model.
\<close>

fun file_read :: "(string \<Rightarrow> string option) \<Rightarrow> file_obj \<Rightarrow> exn + string" where
  "file_read decode (File_obj p content) =
     (case decode content of
        None \<Rightarrow> Inl UnicodeDecodeError
      | Some text \<Rightarrow> Inr (translate_newlines text))"

subsection \<open>The function \<^verbatim>\<open>version\<close>\<close>

text \<open>
  \<^verbatim>\<open>toml.loads\<close> belongs to a third-party library and is a parameter: it maps a text
  to the top-level table, or to the message of the \<^verbatim>\<open>TomlDecodeError\<close> it raises.
  The codec of the locale is the other parameter. Each statement of the source is
  one \<open>case\<close>; an exception leaves through the first \<open>Inl\<close> and nothing below it
  runs. The result is the pair \<^verbatim>\<open>(version, release)\<close> together with the world after
  the call.
\<close>

definition version ::
  "(string \<Rightarrow> string option) \<Rightarrow> (string \<Rightarrow> string + toml_dict) \<Rightarrow> world
     \<Rightarrow> (exn + string \<times> string) \<times> world" where
  "version decode toml_loads w =
     (case builtin_open manifest_name w of
        (Inl e, w') \<Rightarrow> (Inl e, w')
      | (Inr f, w') \<Rightarrow>
          (case file_read decode f of
             Inl e \<Rightarrow> (Inl e, w')
           | Inr text \<Rightarrow>
               (case toml_loads text of
                  Inl msg \<Rightarrow> (Inl (TomlDecodeError msg), w')
                | Inr parsed \<Rightarrow>
                    (case getitem (TTable parsed) ''package'' of
                       Inl e \<Rightarrow> (Inl e, w')
                     | Inr pkg \<Rightarrow>
                         (case getitem pkg ''version'' of
                            Inl e \<Rightarrow> (Inl e, w')
                          | Inr release \<Rightarrow>
                              (case str_of release of
                                 Inl e \<Rightarrow> (Inl e, w')
                               | Inr r \<Rightarrow> (Inr (version_of r, r), w')))))))"

subsection \<open>Loading the configuration\<close>

text \<open>The parent of a directory; the root is its own parent.\<close>

definition parent :: "path \<Rightarrow> path" where
  "parent d = butlast d"

text \<open>
  Modelled from the spec: the documentation host, which is not part of the
  repository, loads the configuration module once at build start, and file names in
  the module are relative to the configuration file's own location. The host does so
  by executing the module with the working directory set to the directory that holds
  the configuration file, and by restoring the working directory afterwards. Of the
  module's statements only line 41, \<^verbatim>\<open>version, release = version()\<close>, touches the world;
  the result is the pair it binds, or the exception as it leaves the module.
\<close>

definition load_configuration ::
  "(string \<Rightarrow> string option) \<Rightarrow> (string \<Rightarrow> string + toml_dict) \<Rightarrow> path \<Rightarrow> world
     \<Rightarrow> (exn + string \<times> string) \<times> world" where
  "load_configuration decode toml_loads conf_file w =
     (case version decode toml_loads (w\<lparr>cwd := parent conf_file\<rparr>) of
        (result, w') \<Rightarrow> (result, w'\<lparr>cwd := cwd w\<rparr>))"

subsection \<open>Vocabulary of the specification\<close>

text \<open>
  Following the specification's words, "release truncated just before the second dot":
  \<open>cut_before_dot n s\<close> is \<open>s\<close> up to and not including its \<open>n\<close>-th dot, and all of
  \<open>s\<close> when it has fewer than \<open>n\<close> dots.
\<close>

fun cut_before_dot :: "nat \<Rightarrow> string \<Rightarrow> string" where
  "cut_before_dot n [] = []"
| "cut_before_dot n (c # cs) =
     (if c = CHR ''.'' then (if n \<le> 1 then [] else c # cut_before_dot (n - 1) cs)
      else c # cut_before_dot n cs)"

text \<open>
  Following the specification's words, "the package table or the package.version
  field is absent": the parsed manifest has no table under \<^verbatim>\<open>package\<close>, or that table
  has no entry \<^verbatim>\<open>version\<close>.
\<close>

definition package_version_absent :: "toml_dict \<Rightarrow> bool" where
  "package_version_absent parsed =
     (case map_of parsed ''package'' of
        Some (TTable pkg) \<Rightarrow> map_of pkg ''version'' = None
      | _ \<Rightarrow> True)"

text \<open>What the file system holds at the place the manifest name resolves to.\<close>

definition manifest_at :: "world \<Rightarrow> node option" where
  "manifest_at w = map_of (files w) (resolve (cwd w) manifest_name)"

subsection \<open>Sample manifests\<close>

text \<open>
  The text of a manifest with a given version string; a parser that knows a handful
  of texts and stands in for the library's parser in the examples (the message it
  gives for a text it rejects is its own); a codec that accepts 7-bit bytes, on which
  ASCII and UTF-8 agree, and rejects every other byte; and a checkout of the
  repository with the process inside the directory of the configuration file.
\<close>

definition ascii_decode :: "string \<Rightarrow> string option" where
  "ascii_decode bytes = (if list_all (\<lambda>b. \<not> digit7 b) bytes then Some bytes else None)"

definition cargo_toml :: "string \<Rightarrow> string" where
  "cargo_toml v = ''[package]'' @ [CHR 0x0A] @ ''version = '' @ [CHR 0x22] @ v @ [CHR 0x22]"

definition sample_table :: "(string \<times> toml_dict) list" where
  "sample_table =
     [(cargo_toml ''0.7.2'', [(''package'', TTable [(''version'', TString ''0.7.2'')])]),
      (cargo_toml ''2.10'', [(''package'', TTable [(''version'', TString ''2.10'')])]),
      (cargo_toml ''1'', [(''package'', TTable [(''version'', TString ''1'')])]),
      (cargo_toml ''abc.def'', [(''package'', TTable [(''version'', TString ''abc.def'')])]),
      (''package = 1'', [(''package'', TInteger 1)]),
      (''[package]'', [(''package'', TTable [])]),
      ([], [])]"

definition sample_loads :: "string \<Rightarrow> string + toml_dict" where
  "sample_loads text =
     (case map_of sample_table text of
        None \<Rightarrow> Inl ''invalid''
      | Some parsed \<Rightarrow> Inr parsed)"

definition checkout :: "string \<Rightarrow> world" where
  "checkout text =
     \<lparr>files = [([''lumol''], Dir),
               ([''lumol'', ''Cargo.toml''], File text),
               ([''lumol'', ''doc''], Dir),
               ([''lumol'', ''doc'', ''src''], Dir),
               ([''lumol'', ''doc'', ''src'', ''conf.py''], File [])],
      cwd = [''lumol'', ''doc'', ''src''],
      log = []\<rparr>"

text \<open>The location of the configuration file in the checkout.\<close>

definition conf_py :: path where
  "conf_py = [''lumol'', ''doc'', ''src'', ''conf.py'']"

text \<open>A checkout that has lost its manifest.\<close>

definition bare_checkout :: world where
  "bare_checkout =
     \<lparr>files = [([''lumol''], Dir),
               ([''lumol'', ''doc''], Dir),
               ([''lumol'', ''doc'', ''src''], Dir),
               ([''lumol'', ''doc'', ''src'', ''conf.py''], File [])],
      cwd = [''lumol'', ''doc'', ''src''],
      log = []\<rparr>"

section \<open>Properties of the string primitives\<close>

lemma str_split_not_Nil: "str_split sep s \<noteq> []"
  by (induction s) (auto split: list.splits)

lemma str_split_no_sep: "sep \<notin> set s \<Longrightarrow> str_split sep s = [s]"
  by (induction s) auto

lemma str_split_append:
  "sep \<notin> set a \<Longrightarrow> str_split sep (a @ sep # r) = a # str_split sep r"
  by (induction a) auto

lemma length_str_split: "length (str_split sep s) = Suc (count_list s sep)"
  by (induction s) (auto split: list.splits simp: str_split_not_Nil)

lemma str_split_pieces: "p \<in> set (str_split sep s) \<Longrightarrow> sep \<notin> set p"
  by (induction s arbitrary: p) (auto split: if_splits list.splits)

lemma str_join_Cons:
  "ps \<noteq> [] \<Longrightarrow> str_join sep (p # ps) = p @ sep @ str_join sep ps"
  by (cases ps) auto

text \<open>Joining the pieces of a string gives the string back.\<close>

lemma join_split: "str_join [sep] (str_split sep s) = s"
proof (induction s)
  case Nil
  show ?case by simp
next
  case (Cons c cs)
  show ?case
  proof (cases "c = sep")
    case True
    with Cons show ?thesis by (simp add: str_join_Cons str_split_not_Nil)
  next
    case False
    obtain p ps where sp: "str_split sep cs = p # ps"
      using str_split_not_Nil [of sep cs] by (cases "str_split sep cs") auto
    with Cons False show ?thesis by (cases ps) auto
  qed
qed

text \<open>Splitting a joined list of separator-free pieces gives the pieces back.\<close>

lemma split_join:
  "ps \<noteq> [] \<Longrightarrow> \<forall>p \<in> set ps. sep \<notin> set p \<Longrightarrow> str_split sep (str_join [sep] ps) = ps"
proof (induction ps rule: induct_list012)
  case 1
  then show ?case by simp
next
  case (2 x)
  then show ?case by (simp add: str_split_no_sep)
next
  case (3 x y ys)
  then show ?case using str_split_append [of sep x "str_join [sep] (y # ys)"] by simp
qed

lemma hd_str_split: "hd (str_split sep s) = takeWhile (\<lambda>c. c \<noteq> sep) s"
  by (induction s) (auto split: list.splits simp: str_split_not_Nil)

lemma version_of_no_dot: "CHR ''.'' \<notin> set r \<Longrightarrow> version_of r = r"
  by (simp add: version_of_def str_split_no_sep)

lemma version_of_dot:
  assumes "CHR ''.'' \<notin> set a"
  shows "version_of (a @ CHR ''.'' # r) = a @ CHR ''.'' # takeWhile (\<lambda>c. c \<noteq> CHR ''.'') r"
proof -
  obtain p ps where sp: "str_split (CHR ''.'') r = p # ps"
    using str_split_not_Nil [of "CHR ''.''" r] by (cases "str_split (CHR ''.'') r") auto
  have "p = takeWhile (\<lambda>c. c \<noteq> CHR ''.'') r"
    using hd_str_split [of "CHR ''.''" r] sp by simp
  then show ?thesis
    using assms sp by (simp add: version_of_def str_split_append)
qed

lemma first_dot: "sep \<in> set s \<Longrightarrow> \<exists>a r. s = a @ sep # r \<and> sep \<notin> set a"
  by (metis split_list_first)

text \<open>The pieces of the version are the first two pieces of the release.\<close>

lemma version_of_pieces:
  "str_split (CHR ''.'') (version_of r) = take 2 (str_split (CHR ''.'') r)"
  unfolding version_of_def
  by (rule split_join) (auto simp: str_split_not_Nil dest: in_set_takeD str_split_pieces)

lemma two_pieces_iff: "2 \<le> length (str_split sep s) \<longleftrightarrow> sep \<in> set s"
  using count_list_0_iff [of s sep] by (auto simp: length_str_split numeral_2_eq_2)

lemma cut_before_dot_1: "cut_before_dot (Suc 0) s = takeWhile (\<lambda>c. c \<noteq> CHR ''.'') s"
  by (induction s) auto

lemma cut_before_dot_no_dot: "CHR ''.'' \<notin> set s \<Longrightarrow> cut_before_dot n s = s"
  by (induction s) auto

lemma cut_before_dot_2:
  "CHR ''.'' \<notin> set a \<Longrightarrow>
   cut_before_dot 2 (a @ CHR ''.'' # t) = a @ CHR ''.'' # takeWhile (\<lambda>c. c \<noteq> CHR ''.'') t"
  by (induction a) (auto simp: cut_before_dot_1)

lemma version_of_cut: "version_of r = cut_before_dot 2 r"
proof (cases "CHR ''.'' \<in> set r")
  case True
  then obtain a t where r: "r = a @ CHR ''.'' # t" and a: "CHR ''.'' \<notin> set a"
    using first_dot by metis
  show ?thesis unfolding r using a by (simp add: version_of_dot cut_before_dot_2)
next
  case False
  then show ?thesis by (simp add: version_of_no_dot cut_before_dot_no_dot)
qed

lemma prefix_cut_before_dot: "prefix (cut_before_dot n s) s"
  by (induction s arbitrary: n) auto

lemma cut_before_dot_map:
  assumes "\<And>c. (f c = CHR ''.'') = (c = CHR ''.'')"
  shows "cut_before_dot n (map f r) = map f (cut_before_dot n r)"
  by (induction r arbitrary: n) (auto simp: assms)

section \<open>Properties of the function\<close>

lemma manifest_name_eq: "manifest_name = ''../../Cargo.toml''"
  by (simp add: manifest_name_def os_path_join_def join_step_def)

lemma resolve_manifest: "resolve d manifest_name = parent (parent d) @ [''Cargo.toml'']"
  by (simp add: manifest_name_eq resolve_def parent_def)

text \<open>The world after a call: the log has one more entry, nothing else differs.\<close>

lemma version_world:
  "snd (version decode toml_loads w) =
     w\<lparr>log := log w @ [Read_open (resolve (cwd w) manifest_name)]\<rparr>"
  by (simp add: version_def builtin_open_def Let_def
           split: option.splits node.splits sum.splits prod.splits)

lemma getitem_cases:
  "getitem v key =
     (case v of
        TTable d \<Rightarrow> (case map_of d key of None \<Rightarrow> Inl (KeyError key) | Some x \<Rightarrow> Inr x)
      | _ \<Rightarrow> Inl TypeError)"
  by (cases v) simp_all

lemma str_of_cases:
  "str_of v = (case v of TString s \<Rightarrow> Inr s | _ \<Rightarrow> Inl AttributeError)"
  by (cases v) simp_all

text \<open>The result of a call, read off the file system.\<close>

lemma version_result:
  "fst (version decode toml_loads w) =
     (case manifest_at w of
        None \<Rightarrow> Inl (FileNotFoundError manifest_name)
      | Some Dir \<Rightarrow> Inl (IsADirectoryError manifest_name)
      | Some Unreadable \<Rightarrow> Inl (PermissionError manifest_name)
      | Some (File content) \<Rightarrow>
          (case decode content of
             None \<Rightarrow> Inl UnicodeDecodeError
           | Some decoded \<Rightarrow>
               (case toml_loads (translate_newlines decoded) of
                  Inl msg \<Rightarrow> Inl (TomlDecodeError msg)
                | Inr parsed \<Rightarrow>
                    (case getitem (TTable parsed) ''package'' of
                       Inl e \<Rightarrow> Inl e
                     | Inr pkg \<Rightarrow>
                         (case getitem pkg ''version'' of
                            Inl e \<Rightarrow> Inl e
                          | Inr release \<Rightarrow>
                              (case str_of release of
                                 Inl e \<Rightarrow> Inl e
                               | Inr r \<Rightarrow> Inr (version_of r, r)))))))"
  by (simp add: version_def builtin_open_def manifest_at_def Let_def
           split: option.splits node.splits sum.splits prod.splits)

lemma version_depends:
  "manifest_at w = manifest_at w' \<Longrightarrow>
   fst (version decode toml_loads w) = fst (version decode toml_loads w')"
  by (simp add: version_result)

lemma version_ok:
  assumes "manifest_at w = Some (File content)"
    and "decode content = Some decoded"
    and "toml_loads (translate_newlines decoded) = Inr parsed"
    and "map_of parsed ''package'' = Some (TTable pkg)"
    and "map_of pkg ''version'' = Some (TString r)"
  shows "fst (version decode toml_loads w) = Inr (version_of r, r)"
  using assms by (simp add: version_result)

text \<open>Loading the configuration: what is opened, and what comes back.\<close>

lemma load_world:
  "snd (load_configuration decode toml_loads conf_file w) =
     w\<lparr>log := log w @ [Read_open (parent (parent (parent conf_file)) @ [''Cargo.toml''])]\<rparr>"
  by (simp add: load_configuration_def case_prod_unfold version_world resolve_manifest)

lemma load_result:
  "fst (load_configuration decode toml_loads conf_file w) =
     fst (version decode toml_loads (w\<lparr>cwd := parent conf_file\<rparr>))"
  by (simp add: load_configuration_def case_prod_unfold)

lemma manifest_at_load:
  "manifest_at (w\<lparr>cwd := parent conf_file\<rparr>) =
     map_of (files w) (parent (parent (parent conf_file)) @ [''Cargo.toml''])"
  by (simp add: manifest_at_def resolve_manifest)

lemma resolve_literal: "resolve d ''../../Cargo.toml'' = parent (parent d) @ [''Cargo.toml'']"
  using resolve_manifest [of d] by (simp only: manifest_name_eq)

lemmas sample_defs =
  manifest_at_def checkout_def bare_checkout_def conf_py_def manifest_name_eq resolve_literal
  parent_def sample_loads_def sample_table_def cargo_toml_def ascii_decode_def

section \<open>The claims\<close>

text \<open>
  C1. For every release string with at least two dot-separated components, the
  version is exactly the first component, one dot, and the second component; so
  \<^verbatim>\<open>2.10\<close> gives \<^verbatim>\<open>2.10\<close> and \<^verbatim>\<open>0.7.2\<close> gives \<^verbatim>\<open>0.7\<close>.
\<close>

theorem version_first_two:
  assumes "2 \<le> length (str_split (CHR ''.'') release)"
  shows "version_of release =
           str_split (CHR ''.'') release ! 0 @ ''.'' @ str_split (CHR ''.'') release ! 1"
proof -
  from assms obtain x y zs where "str_split (CHR ''.'') release = x # y # zs"
    by (auto simp: numeral_2_eq_2 Suc_le_length_iff)
  then show ?thesis by (simp add: version_of_def)
qed

theorem version_first_two_witness:
  "2 \<le> length (str_split (CHR ''.'') ''0.7.2'') \<and> version_of ''0.7.2'' = ''0.7''
   \<and> 2 \<le> length (str_split (CHR ''.'') ''2.10'') \<and> version_of ''2.10'' = ''2.10''"
  using version_first_two [of "''0.7.2''"] version_first_two [of "''2.10''"]
  by simp

text \<open>
  C4. A release string with fewer than two dot-separated components contains no dot,
  and its version is the release string itself; so \<^verbatim>\<open>1\<close> gives \<^verbatim>\<open>1\<close>.
\<close>

theorem version_single_component:
  assumes "length (str_split (CHR ''.'') release) < 2"
  shows "CHR ''.'' \<notin> set release \<and> version_of release = release"
proof -
  from assms have "count_list release (CHR ''.'') = 0"
    by (simp add: length_str_split)
  then have "CHR ''.'' \<notin> set release"
    by (simp add: count_list_0_iff)
  then show ?thesis by (simp add: version_of_no_dot)
qed

theorem version_single_component_witness:
  "length (str_split (CHR ''.'') ''1'') < 2 \<and> CHR ''.'' \<notin> set ''1'' \<and> version_of ''1'' = ''1''"
  using version_single_component [of "''1''"]
  by simp

text \<open>
  C2. When the manifest holds a string \<open>s\<close> under \<^verbatim>\<open>package.version\<close>, the call returns
  a pair whose release is \<open>s\<close> itself, character for character.
\<close>

theorem release_verbatim:
  assumes "manifest_at w = Some (File content)"
    and "decode content = Some decoded"
    and "toml_loads (translate_newlines decoded) = Inr parsed"
    and "map_of parsed ''package'' = Some (TTable pkg)"
    and "map_of pkg ''version'' = Some (TString s)"
  shows "\<exists>v. fst (version decode toml_loads w) = Inr (v, s)"
  using assms by (simp add: version_result)

theorem release_verbatim_witness:
  "\<exists>v. fst (version ascii_decode sample_loads (checkout (cargo_toml ''0.7.2'')))
          = Inr (v, ''0.7.2'')"
proof -
  have 1: "manifest_at (checkout (cargo_toml ''0.7.2'')) = Some (File (cargo_toml ''0.7.2''))"
    by (simp add: sample_defs)
  have 2: "ascii_decode (cargo_toml ''0.7.2'') = Some (cargo_toml ''0.7.2'')"
    by (simp add: sample_defs)
  have 3: "sample_loads (translate_newlines (cargo_toml ''0.7.2''))
             = Inr [(''package'', TTable [(''version'', TString ''0.7.2'')])]"
    by (simp add: sample_defs)
  have 4: "map_of [(''package'', TTable [(''version'', TString ''0.7.2'')])] ''package''
             = Some (TTable [(''version'', TString ''0.7.2'')])"
    by simp
  have 5: "map_of [(''version'', TString ''0.7.2'')] ''version'' = Some (TString ''0.7.2'')"
    by simp
  show ?thesis
    by (rule release_verbatim
              [where decode = ascii_decode and toml_loads = sample_loads, OF 1 2 3 4 5])
qed

text \<open>
  C3. When the host loads the configuration file, the one file opened is
  \<^verbatim>\<open>Cargo.toml\<close> two directory levels above the directory that holds the configuration
  file. The working directory the process had before plays no part, and the result
  depends on the files only through what lies at that place.
\<close>

theorem manifest_two_above_conf:
  "log (snd (load_configuration decode toml_loads conf_file w))
     = log w @ [Read_open (parent (parent (parent conf_file)) @ [''Cargo.toml''])]
   \<and> load_configuration decode toml_loads conf_file (w\<lparr>cwd := d\<rparr>)
       = (fst (load_configuration decode toml_loads conf_file w),
          (snd (load_configuration decode toml_loads conf_file w))\<lparr>cwd := d\<rparr>)
   \<and> (map_of (files w') (parent (parent (parent conf_file)) @ [''Cargo.toml''])
         = map_of (files w) (parent (parent (parent conf_file)) @ [''Cargo.toml''])
       \<longrightarrow> fst (load_configuration decode toml_loads conf_file w')
             = fst (load_configuration decode toml_loads conf_file w))"
proof -
  let ?place = "parent (parent (parent conf_file)) @ [''Cargo.toml'']"
  have opened: "log (snd (load_configuration decode toml_loads conf_file w))
                  = log w @ [Read_open ?place]"
    by (simp add: load_world)
  have "fst (load_configuration decode toml_loads conf_file (w\<lparr>cwd := d\<rparr>))
          = fst (load_configuration decode toml_loads conf_file w)"
    unfolding load_result by (rule version_depends) (simp add: manifest_at_load)
  moreover
  have "snd (load_configuration decode toml_loads conf_file (w\<lparr>cwd := d\<rparr>))
          = (snd (load_configuration decode toml_loads conf_file w))\<lparr>cwd := d\<rparr>"
    by (simp add: load_world)
  ultimately have any_cwd:
    "load_configuration decode toml_loads conf_file (w\<lparr>cwd := d\<rparr>)
       = (fst (load_configuration decode toml_loads conf_file w),
          (snd (load_configuration decode toml_loads conf_file w))\<lparr>cwd := d\<rparr>)"
    by (simp add: prod_eq_iff)
  have place_only:
    "map_of (files w') ?place = map_of (files w) ?place
     \<longrightarrow> fst (load_configuration decode toml_loads conf_file w')
           = fst (load_configuration decode toml_loads conf_file w)"
  proof
    assume "map_of (files w') ?place = map_of (files w) ?place"
    then have "manifest_at (w'\<lparr>cwd := parent conf_file\<rparr>)
                 = manifest_at (w\<lparr>cwd := parent conf_file\<rparr>)"
      by (simp add: manifest_at_load)
    then show "fst (load_configuration decode toml_loads conf_file w')
                 = fst (load_configuration decode toml_loads conf_file w)"
      unfolding load_result by (rule version_depends)
  qed
  from opened any_cwd place_only show ?thesis by (intro conjI)
qed

theorem manifest_two_above_conf_witness:
  "parent (parent (parent conf_py)) @ [''Cargo.toml''] = [''lumol'', ''Cargo.toml'']
   \<and> log (snd (load_configuration ascii_decode sample_loads conf_py
                 ((checkout (cargo_toml ''0.7.2''))\<lparr>cwd := [''lumol'']\<rparr>)))
       = [Read_open [''lumol'', ''Cargo.toml'']]
   \<and> fst (load_configuration ascii_decode sample_loads conf_py
            ((checkout (cargo_toml ''0.7.2''))\<lparr>cwd := [''lumol'']\<rparr>))
       = Inr (''0.7'', ''0.7.2'')"
proof -
  let ?w = "checkout (cargo_toml ''0.7.2'')"
  let ?load = "load_configuration ascii_decode sample_loads conf_py"
  note fact = manifest_two_above_conf [of ascii_decode sample_loads conf_py ?w "[''lumol'']" ?w]
  have place: "parent (parent (parent conf_py)) @ [''Cargo.toml''] = [''lumol'', ''Cargo.toml'']"
    by (simp add: conf_py_def parent_def)
  have here: "fst (?load ?w) = Inr (''0.7'', ''0.7.2'')"
    by (simp add: load_result version_result sample_defs version_of_def)
  have start: "log ?w = []"
    by (simp add: checkout_def)
  from fact have opened:
    "log (snd (?load ?w)) = log ?w @ [Read_open (parent (parent (parent conf_py)) @ [''Cargo.toml''])]"
    by (rule conjunct1)
  from fact have moved:
    "?load (?w\<lparr>cwd := [''lumol'']\<rparr>) = (fst (?load ?w), (snd (?load ?w))\<lparr>cwd := [''lumol'']\<rparr>)"
    by (rule conjunct1 [OF conjunct2])
  have result: "fst (?load (?w\<lparr>cwd := [''lumol'']\<rparr>)) = Inr (''0.7'', ''0.7.2'')"
    by (simp only: moved fst_conv here)
  have "log (snd (?load (?w\<lparr>cwd := [''lumol'']\<rparr>))) = log (snd (?load ?w))"
    by (simp only: moved snd_conv) simp
  also have "\<dots> = [Read_open [''lumol'', ''Cargo.toml'']]"
    by (simp only: opened start place append_Nil)
  finally show ?thesis
    using place result by (intro conjI)
qed

text \<open>
  C5, as the code has it. The call fails with \<^verbatim>\<open>FileNotFoundError\<close> exactly when nothing
  exists at the manifest path; with \<^verbatim>\<open>TomlDecodeError\<close>, carrying the parser's own
  message, exactly when the manifest is a readable file, its bytes decode, and the
  parser rejects the text; with \<^verbatim>\<open>KeyError\<close>, carrying the key, exactly when the text
  parses and either the top-level table has no key \<^verbatim>\<open>package\<close>, or \<^verbatim>\<open>package\<close> is a table
  with no key \<^verbatim>\<open>version\<close>. The other failures are of other kinds: a directory at the
  path gives \<^verbatim>\<open>IsADirectoryError\<close>, a file that may not be read \<^verbatim>\<open>PermissionError\<close>, bytes
  that do not decode \<^verbatim>\<open>UnicodeDecodeError\<close>, a \<^verbatim>\<open>package\<close> that is not a table \<^verbatim>\<open>TypeError\<close>,
  a \<^verbatim>\<open>version\<close> that is not a string \<^verbatim>\<open>AttributeError\<close>. Each exception reaches the caller
  as it was raised, and a pair is returned only when the manifest holds a string
  under \<^verbatim>\<open>package.version\<close>, derived from that string: there is no fallback.
\<close>

theorem version_failures:
  "(fst (version decode toml_loads w) = Inl (FileNotFoundError name))
     = (name = manifest_name \<and> manifest_at w = None)
   \<and> (fst (version decode toml_loads w) = Inl (IsADirectoryError name))
     = (name = manifest_name \<and> manifest_at w = Some Dir)
   \<and> (fst (version decode toml_loads w) = Inl (PermissionError name))
     = (name = manifest_name \<and> manifest_at w = Some Unreadable)
   \<and> (fst (version decode toml_loads w) = Inl UnicodeDecodeError)
     = (\<exists>content. manifest_at w = Some (File content) \<and> decode content = None)
   \<and> (fst (version decode toml_loads w) = Inl (TomlDecodeError msg))
     = (\<exists>content decoded. manifest_at w = Some (File content) \<and>
          decode content = Some decoded \<and>
          toml_loads (translate_newlines decoded) = Inl msg)
   \<and> (fst (version decode toml_loads w) = Inl (KeyError key))
     = (\<exists>content decoded parsed. manifest_at w = Some (File content) \<and>
          decode content = Some decoded \<and>
          toml_loads (translate_newlines decoded) = Inr parsed \<and>
          (key = ''package'' \<and> map_of parsed ''package'' = None
           \<or> key = ''version'' \<and>
             (\<exists>pkg. map_of parsed ''package'' = Some (TTable pkg)
                    \<and> map_of pkg ''version'' = None)))
   \<and> (fst (version decode toml_loads w) = Inl TypeError)
     = (\<exists>content decoded parsed x. manifest_at w = Some (File content) \<and>
          decode content = Some decoded \<and>
          toml_loads (translate_newlines decoded) = Inr parsed \<and>
          map_of parsed ''package'' = Some x \<and> (\<forall>pkg. x \<noteq> TTable pkg))
   \<and> (fst (version decode toml_loads w) = Inl AttributeError)
     = (\<exists>content decoded parsed pkg x. manifest_at w = Some (File content) \<and>
          decode content = Some decoded \<and>
          toml_loads (translate_newlines decoded) = Inr parsed \<and>
          map_of parsed ''package'' = Some (TTable pkg) \<and>
          map_of pkg ''version'' = Some x \<and> (\<forall>s. x \<noteq> TString s))
   \<and> (fst (version decode toml_loads w) = Inr (v, r))
     = (v = version_of r \<and>
        (\<exists>content decoded parsed pkg. manifest_at w = Some (File content) \<and>
           decode content = Some decoded \<and>
           toml_loads (translate_newlines decoded) = Inr parsed \<and>
           map_of parsed ''package'' = Some (TTable pkg) \<and>
           map_of pkg ''version'' = Some (TString r)))"
proof -
  note splits = option.splits node.splits sum.splits toml_value.splits
  note unfold = version_result getitem_cases str_of_cases
  have not_found: "(fst (version decode toml_loads w) = Inl (FileNotFoundError name))
     = (name = manifest_name \<and> manifest_at w = None)"
    by (auto simp: unfold split: splits)
  have directory: "(fst (version decode toml_loads w) = Inl (IsADirectoryError name))
     = (name = manifest_name \<and> manifest_at w = Some Dir)"
    by (auto simp: unfold split: splits)
  have denied: "(fst (version decode toml_loads w) = Inl (PermissionError name))
     = (name = manifest_name \<and> manifest_at w = Some Unreadable)"
    by (auto simp: unfold split: splits)
  have undecodable: "(fst (version decode toml_loads w) = Inl UnicodeDecodeError)
     = (\<exists>content. manifest_at w = Some (File content) \<and> decode content = None)"
    by (auto simp: unfold split: splits)
  have rejected: "(fst (version decode toml_loads w) = Inl (TomlDecodeError msg))
     = (\<exists>content decoded. manifest_at w = Some (File content) \<and>
          decode content = Some decoded \<and>
          toml_loads (translate_newlines decoded) = Inl msg)"
    by (auto simp: unfold split: splits)
  have missing: "(fst (version decode toml_loads w) = Inl (KeyError key))
     = (\<exists>content decoded parsed. manifest_at w = Some (File content) \<and>
          decode content = Some decoded \<and>
          toml_loads (translate_newlines decoded) = Inr parsed \<and>
          (key = ''package'' \<and> map_of parsed ''package'' = None
           \<or> key = ''version'' \<and>
             (\<exists>pkg. map_of parsed ''package'' = Some (TTable pkg)
                    \<and> map_of pkg ''version'' = None)))"
    by (auto simp: unfold split: splits)
  have not_table: "(fst (version decode toml_loads w) = Inl TypeError)
     = (\<exists>content decoded parsed x. manifest_at w = Some (File content) \<and>
          decode content = Some decoded \<and>
          toml_loads (translate_newlines decoded) = Inr parsed \<and>
          map_of parsed ''package'' = Some x \<and> (\<forall>pkg. x \<noteq> TTable pkg))"
    by (auto simp: unfold split: splits)
  have not_string: "(fst (version decode toml_loads w) = Inl AttributeError)
     = (\<exists>content decoded parsed pkg x. manifest_at w = Some (File content) \<and>
          decode content = Some decoded \<and>
          toml_loads (translate_newlines decoded) = Inr parsed \<and>
          map_of parsed ''package'' = Some (TTable pkg) \<and>
          map_of pkg ''version'' = Some x \<and> (\<forall>s. x \<noteq> TString s))"
    by (auto simp: unfold split: splits)
  have returned: "(fst (version decode toml_loads w) = Inr (v, r))
     = (v = version_of r \<and>
        (\<exists>content decoded parsed pkg. manifest_at w = Some (File content) \<and>
           decode content = Some decoded \<and>
           toml_loads (translate_newlines decoded) = Inr parsed \<and>
           map_of parsed ''package'' = Some (TTable pkg) \<and>
           map_of pkg ''version'' = Some (TString r)))"
    by (auto simp: unfold split: splits)
  from not_found directory denied undecodable rejected missing not_table not_string returned
  show ?thesis by (intro conjI)
qed

theorem version_failures_witness:
  "fst (version ascii_decode sample_loads bare_checkout)
     = Inl (FileNotFoundError ''../../Cargo.toml'')
   \<and> fst (version ascii_decode sample_loads (checkout [CHR 0xFF])) = Inl UnicodeDecodeError
   \<and> fst (version ascii_decode sample_loads (checkout ''[package''))
       = Inl (TomlDecodeError ''invalid'')
   \<and> fst (version ascii_decode sample_loads (checkout [])) = Inl (KeyError ''package'')
   \<and> fst (version ascii_decode sample_loads (checkout ''[package]''))
       = Inl (KeyError ''version'')
   \<and> fst (version ascii_decode sample_loads (checkout ''package = 1'')) = Inl TypeError
   \<and> fst (version ascii_decode sample_loads (checkout (cargo_toml ''0.7.2'')))
       = Inr (''0.7'', ''0.7.2'')"
proof -
  have "fst (version ascii_decode sample_loads bare_checkout)
          = Inl (FileNotFoundError ''../../Cargo.toml'')"
    using version_failures [of ascii_decode sample_loads bare_checkout "''../../Cargo.toml''"]
    by (simp add: sample_defs)
  moreover
  have "fst (version ascii_decode sample_loads (checkout [CHR 0xFF])) = Inl UnicodeDecodeError"
    using version_failures [of ascii_decode sample_loads "checkout [CHR 0xFF]"]
    by (simp add: sample_defs)
  moreover
  have "fst (version ascii_decode sample_loads (checkout ''[package''))
          = Inl (TomlDecodeError ''invalid'')"
    using version_failures [of ascii_decode sample_loads "checkout ''[package''" _ "''invalid''"]
    by (simp add: sample_defs)
  moreover
  have "fst (version ascii_decode sample_loads (checkout [])) = Inl (KeyError ''package'')"
    using version_failures [of ascii_decode sample_loads "checkout []" _ _ "''package''"]
    by (simp add: sample_defs)
  moreover
  have "fst (version ascii_decode sample_loads (checkout ''[package]''))
          = Inl (KeyError ''version'')"
    using version_failures [of ascii_decode sample_loads "checkout ''[package]''" _ _ "''version''"]
    by (simp add: sample_defs)
  moreover
  have "fst (version ascii_decode sample_loads (checkout ''package = 1'')) = Inl TypeError"
    using version_failures [of ascii_decode sample_loads "checkout ''package = 1''"]
    by (simp add: sample_defs)
  moreover
  have "fst (version ascii_decode sample_loads (checkout (cargo_toml ''0.7.2'')))
          = Inr (''0.7'', ''0.7.2'')"
    using version_failures
            [of ascii_decode sample_loads "checkout (cargo_toml ''0.7.2'')" _ _ _ "''0.7''" "''0.7.2''"]
    by (simp add: sample_defs version_of_def)
  ultimately show ?thesis by (intro conjI)
qed

text \<open>
  C5, as the specification has it, fails twice. The manifest \<^verbatim>\<open>package = 1\<close> is valid
  TOML with no package table and no \<^verbatim>\<open>package.version\<close>, and the call fails with a
  \<^verbatim>\<open>TypeError\<close>, not with the \<^verbatim>\<open>KeyError\<close> of a missing field. A manifest that consists of
  the byte \<open>0xFF\<close>, which neither ASCII nor UTF-8 decodes, is not valid TOML, and the
  call fails with a \<^verbatim>\<open>UnicodeDecodeError\<close> raised by the read, before the parser is asked.
\<close>

theorem missing_field_counterexample:
  "manifest_at (checkout ''package = 1'') = Some (File ''package = 1'')
   \<and> ascii_decode ''package = 1'' = Some ''package = 1''
   \<and> sample_loads (translate_newlines ''package = 1'') = Inr [(''package'', TInteger 1)]
   \<and> package_version_absent [(''package'', TInteger 1)]
   \<and> fst (version ascii_decode sample_loads (checkout ''package = 1'')) = Inl TypeError
   \<and> manifest_at (checkout [CHR 0xFF]) = Some (File [CHR 0xFF])
   \<and> ascii_decode [CHR 0xFF] = None
   \<and> fst (version ascii_decode sample_loads (checkout [CHR 0xFF])) = Inl UnicodeDecodeError"
  by (simp add: version_result package_version_absent_def sample_defs)

text \<open>
  C6. Truncating a version again changes nothing, and a second call, made in the
  world the first call left behind, returns what the first call returned.
\<close>

theorem version_idempotent:
  "version_of (version_of release) = version_of release
   \<and> fst (version decode toml_loads (snd (version decode toml_loads w)))
       = fst (version decode toml_loads w)"
proof -
  have "version_of (version_of release)
          = str_join ''.'' (take 2 (str_split (CHR ''.'') (version_of release)))"
    by (simp only: version_of_def)
  also have "\<dots> = str_join ''.'' (take 2 (take 2 (str_split (CHR ''.'') release)))"
    by (simp only: version_of_pieces)
  also have "\<dots> = version_of release"
    by (simp add: version_of_def)
  finally have pure: "version_of (version_of release) = version_of release" .
  have "fst (version decode toml_loads (snd (version decode toml_loads w)))
          = fst (version decode toml_loads w)"
    by (rule version_depends) (simp add: version_world manifest_at_def)
  with pure show ?thesis by simp
qed

theorem version_idempotent_witness:
  "version_of (version_of ''0.7.2'') = ''0.7''
   \<and> fst (version ascii_decode sample_loads
            (snd (version ascii_decode sample_loads (checkout (cargo_toml ''0.7.2'')))))
       = Inr (''0.7'', ''0.7.2'')"
proof -
  have "version_of ''0.7.2'' = ''0.7''"
    by (simp add: version_of_def)
  moreover
  have "fst (version ascii_decode sample_loads (checkout (cargo_toml ''0.7.2'')))
          = Inr (''0.7'', ''0.7.2'')"
    by (simp add: version_result sample_defs version_of_def)
  ultimately show ?thesis
    using version_idempotent
            [of "''0.7.2''" ascii_decode sample_loads "checkout (cargo_toml ''0.7.2'')"]
    by simp
qed

text \<open>
  C7. The version is a prefix of the release: the release cut just before its second
  dot when it has at least two dot-separated components (all of it when there is no
  second dot), and the release itself otherwise.
\<close>

theorem version_prefix_of_release:
  "prefix (version_of release) release
   \<and> version_of release =
       (if 2 \<le> length (str_split (CHR ''.'') release) then cut_before_dot 2 release
        else release)"
  using prefix_cut_before_dot [of 2 release]
  by (simp add: version_of_cut [symmetric] two_pieces_iff version_of_no_dot)

theorem version_prefix_of_release_witness:
  "prefix ''0.7'' ''0.7.2'' \<and> version_of ''0.7.2'' = ''0.7'' \<and> cut_before_dot 2 ''0.7.2'' = ''0.7''
   \<and> version_of ''2.10'' = ''2.10'' \<and> version_of ''1'' = ''1''"
  using version_prefix_of_release [of "''0.7.2''"] version_prefix_of_release [of "''2.10''"]
    version_prefix_of_release [of "''1''"]
  by simp

text \<open>
  C8. The truncation is textual. Whatever string the manifest holds under
  \<^verbatim>\<open>package.version\<close>, the call accepts it; the pieces of the version are the first two
  pieces of the release as they stand; and renaming the characters in a way that
  keeps the dots and only the dots commutes with the truncation, so no character
  is looked at beyond being a dot or not.
\<close>

theorem version_textual:
  assumes "manifest_at w = Some (File content)"
    and "decode content = Some decoded"
    and "toml_loads (translate_newlines decoded) = Inr parsed"
    and "map_of parsed ''package'' = Some (TTable pkg)"
    and "map_of pkg ''version'' = Some (TString release)"
    and "\<And>c. (f c = CHR ''.'') = (c = CHR ''.'')"
  shows "fst (version decode toml_loads w) = Inr (version_of release, release)
         \<and> str_split (CHR ''.'') (version_of release) = take 2 (str_split (CHR ''.'') release)
         \<and> version_of (map f release) = map f (version_of release)"
proof -
  have "fst (version decode toml_loads w) = Inr (version_of release, release)"
    using assms(1-5) by (rule version_ok)
  moreover
  have "version_of (map f release) = map f (version_of release)"
    unfolding version_of_cut using assms(6) by (rule cut_before_dot_map)
  ultimately show ?thesis by (simp add: version_of_pieces)
qed

theorem version_textual_witness:
  "fst (version ascii_decode sample_loads (checkout (cargo_toml ''abc.def'')))
     = Inr (''abc.def'', ''abc.def'')
   \<and> str_split (CHR ''.'') ''abc.def'' = [''abc'', ''def'']
   \<and> version_of ''xbc.def'' = ''xbc.def''"
proof -
  let ?f = "\<lambda>c. if c = CHR ''a'' then CHR ''x'' else c"
  have 1: "manifest_at (checkout (cargo_toml ''abc.def'')) = Some (File (cargo_toml ''abc.def''))"
    by (simp add: sample_defs)
  have 2: "ascii_decode (cargo_toml ''abc.def'') = Some (cargo_toml ''abc.def'')"
    by (simp add: sample_defs)
  have 3: "sample_loads (translate_newlines (cargo_toml ''abc.def''))
             = Inr [(''package'', TTable [(''version'', TString ''abc.def'')])]"
    by (simp add: sample_defs)
  have 4: "map_of [(''package'', TTable [(''version'', TString ''abc.def'')])] ''package''
             = Some (TTable [(''version'', TString ''abc.def'')])"
    by simp
  have 5: "map_of [(''version'', TString ''abc.def'')] ''version'' = Some (TString ''abc.def'')"
    by simp
  have 6: "\<And>c. (?f c = CHR ''.'') = (c = CHR ''.'')"
    by simp
  have v: "version_of ''abc.def'' = ''abc.def''"
    by (simp add: version_of_def)
  show ?thesis
    using version_textual
            [where decode = ascii_decode and toml_loads = sample_loads and f = ?f,
             OF 1 2 3 4 5 6]
    by (simp add: v)
qed

text \<open>
  C9. A call issues exactly one file-system request, the opening of the manifest for
  reading, and leaves the world otherwise as it found it: the files (the manifest
  among them) and the working directory are unchanged.
\<close>

theorem version_frame:
  "snd (version decode toml_loads w)
     = w\<lparr>log := log w @ [Read_open (resolve (cwd w) manifest_name)]\<rparr>
   \<and> files (snd (version decode toml_loads w)) = files w
   \<and> cwd (snd (version decode toml_loads w)) = cwd w
   \<and> manifest_at (snd (version decode toml_loads w)) = manifest_at w
   \<and> length (log (snd (version decode toml_loads w))) = length (log w) + 1"
proof -
  let ?w' = "snd (version decode toml_loads w)"
  have after: "?w' = w\<lparr>log := log w @ [Read_open (resolve (cwd w) manifest_name)]\<rparr>"
    by (rule version_world)
  have same_files: "files ?w' = files w" and same_cwd: "cwd ?w' = cwd w"
    by (simp_all add: after)
  then have same_manifest: "manifest_at ?w' = manifest_at w"
    by (simp add: manifest_at_def)
  have one_more: "length (log ?w') = length (log w) + 1"
    by (simp add: after)
  from after same_files same_cwd same_manifest one_more show ?thesis
    by (intro conjI)
qed

theorem version_frame_witness:
  "snd (version ascii_decode sample_loads (checkout (cargo_toml ''0.7.2'')))
     = (checkout (cargo_toml ''0.7.2''))\<lparr>log := [Read_open [''lumol'', ''Cargo.toml'']]\<rparr>
   \<and> manifest_at (snd (version ascii_decode sample_loads (checkout (cargo_toml ''0.7.2''))))
       = Some (File (cargo_toml ''0.7.2''))"
  using version_frame [of ascii_decode sample_loads "checkout (cargo_toml ''0.7.2'')"]
  by (simp add: sample_defs resolve_manifest)

text \<open>
  C10. The version holds at most one dot, splits into at most two pieces, and is
  never longer than the release.
\<close>

theorem version_shape:
  "count_list (version_of release) (CHR ''.'') \<le> 1
   \<and> length (str_split (CHR ''.'') (version_of release)) \<le> 2
   \<and> length (version_of release) \<le> length release"
proof -
  have a: "length (str_split (CHR ''.'') (version_of release)) \<le> 2"
    by (simp add: version_of_pieces)
  then have b: "count_list (version_of release) (CHR ''.'') \<le> 1"
    by (simp add: length_str_split)
  have "prefix (version_of release) release"
    unfolding version_of_cut by (rule prefix_cut_before_dot)
  then have c: "length (version_of release) \<le> length release"
    by (rule prefix_length_le)
  from a b c show ?thesis by simp
qed

theorem version_shape_witness:
  "count_list (version_of ''0.7.2'') (CHR ''.'') = 1
   \<and> length (str_split (CHR ''.'') (version_of ''0.7.2'')) = 2
   \<and> length (version_of ''0.7.2'') = 3"
  using version_shape [of "''0.7.2''"]
  by (simp add: version_of_def)

end
